theory Spec2Isabelle
  imports Complex_Main
begin

section \<open>Train detection hook (useTrainDetection)\<close>

subsection \<open>JavaScript numbers\<close>

text \<open>
  The hook computes with JavaScript numbers. A finite number is modelled by a real
  (rounding of IEEE doubles is not modelled); the three special values that a division
  can produce are kept, because the comparisons of the source behave differently on
  them: every comparison with \<open>NaN\<close> is false.
\<close>

datatype number = Fin real | PosInf | NegInf | NaN

text \<open>\<open>x / y\<close> for two finite operands: \<open>0 / 0\<close> is \<open>NaN\<close>, \<open>x / 0\<close> is an infinity.\<close>

definition js_div :: "real \<Rightarrow> real \<Rightarrow> number" where
  "js_div x y =
     (if y \<noteq> 0 then Fin (x / y)
      else if 0 < x then PosInf
      else if x < 0 then NegInf
      else NaN)"

text \<open>\<open>n * c\<close> for a finite constant \<open>c\<close>.\<close>

fun js_times :: "number \<Rightarrow> real \<Rightarrow> number" where
  "js_times (Fin a) c = Fin (a * c)"
| "js_times PosInf c = (if 0 < c then PosInf else if c < 0 then NegInf else NaN)"
| "js_times NegInf c = (if 0 < c then NegInf else if c < 0 then PosInf else NaN)"
| "js_times NaN c = NaN"

fun js_gt :: "number \<Rightarrow> real \<Rightarrow> bool" where
  "js_gt (Fin a) c = (c < a)"
| "js_gt PosInf c = True"
| "js_gt NegInf c = False"
| "js_gt NaN c = False"

fun js_ge :: "number \<Rightarrow> real \<Rightarrow> bool" where
  "js_ge (Fin a) c = (c \<le> a)"
| "js_ge PosInf c = True"
| "js_ge NegInf c = False"
| "js_ge NaN c = False"

fun js_lt :: "number \<Rightarrow> real \<Rightarrow> bool" where
  "js_lt (Fin a) c = (a < c)"
| "js_lt PosInf c = False"
| "js_lt NegInf c = True"
| "js_lt NaN c = False"

fun js_le :: "number \<Rightarrow> real \<Rightarrow> bool" where
  "js_le (Fin a) c = (a \<le> c)"
| "js_le PosInf c = False"
| "js_le NegInf c = True"
| "js_le NaN c = False"

subsection \<open>Locations and the line table\<close>

record Location =
  lat :: real
  lng :: real
  accuracy :: "real option"

record Line =
  name :: string
  line_lat :: real
  line_lng :: real
  radius :: real

text \<open>
  The labels of the source are Japanese; a label is written here as the bytes of its
  UTF-8 encoding: \<open>JR\<close> followed by Yamanote-sen, Chuo-sen and Keihin-Tohoku-sen.
\<close>

definition yamanote :: string where
  "yamanote = ''JR'' @ [CHR 0xE5, CHR 0xB1, CHR 0xB1, CHR 0xE6, CHR 0x89, CHR 0x8B,
                        CHR 0xE7, CHR 0xB7, CHR 0x9A]"

definition chuo :: string where
  "chuo = ''JR'' @ [CHR 0xE4, CHR 0xB8, CHR 0xAD, CHR 0xE5, CHR 0xA4, CHR 0xAE,
                    CHR 0xE7, CHR 0xB7, CHR 0x9A]"

definition keihin_tohoku :: string where
  "keihin_tohoku = ''JR'' @ [CHR 0xE4, CHR 0xBA, CHR 0xAC, CHR 0xE6, CHR 0xB5, CHR 0x9C,
                             CHR 0xE6, CHR 0x9D, CHR 0xB1, CHR 0xE5, CHR 0x8C, CHR 0x97,
                             CHR 0xE7, CHR 0xB7, CHR 0x9A]"

definition lines :: "Line list" where
  "lines =
     [\<lparr>name = yamanote, line_lat = 35.6762, line_lng = 139.6503, radius = 0.05\<rparr>,
      \<lparr>name = chuo, line_lat = 35.6581, line_lng = 139.7414, radius = 0.03\<rparr>,
      \<lparr>name = keihin_tohoku, line_lat = 35.7281, line_lng = 139.7186, radius = 0.03\<rparr>]"

text \<open>The distance of the loop body: \<open>Math.sqrt(Math.pow(.., 2) + Math.pow(.., 2))\<close>.\<close>

definition planar :: "Location \<Rightarrow> Line \<Rightarrow> real" where
  "planar location line =
     sqrt ((lat location - line_lat line)\<^sup>2 + (lng location - line_lng line)\<^sup>2)"

text \<open>The \<open>for (const line of lines)\<close> loop, with its early return.\<close>

fun detectLoop :: "Line list \<Rightarrow> Location \<Rightarrow> string option" where
  "detectLoop [] location = None"
| "detectLoop (line # rest) location =
     (if planar location line < radius line then Some (name line)
      else detectLoop rest location)"

definition detectTrainLine :: "Location \<Rightarrow> string option" where
  "detectTrainLine location = detectLoop lines location"

text \<open>
  The resolver as the specification words it: the label of the first entry of the table
  whose planar distance from the point is below the entry's radius, and null when no
  entry matches.
\<close>

definition resolve_spec :: "Line list \<Rightarrow> Location \<Rightarrow> string option" where
  "resolve_spec table location =
     map_option name (find (\<lambda>e. planar location e < radius e) table)"

subsection \<open>Great-circle distance\<close>

text \<open>\<open>Math.atan2(y, x)\<close> on finite arguments.\<close>

definition atan2 :: "real \<Rightarrow> real \<Rightarrow> real" where
  "atan2 y x =
     (if 0 < x then arctan (y / x)
      else if x < 0 \<and> 0 \<le> y then arctan (y / x) + pi
      else if x < 0 then arctan (y / x) - pi
      else if 0 < y then pi / 2
      else if y < 0 then - pi / 2
      else 0)"

definition calculateDistance :: "Location \<Rightarrow> Location \<Rightarrow> real" where
  "calculateDistance loc1 loc2 =
     (let R = 6371000;
          dLat = (lat loc2 - lat loc1) * pi / 180;
          dLng = (lng loc2 - lng loc1) * pi / 180;
          a = sin (dLat / 2) * sin (dLat / 2) +
              cos (lat loc1 * pi / 180) * cos (lat loc2 * pi / 180) *
              sin (dLng / 2) * sin (dLng / 2);
          c = 2 * atan2 (sqrt a) (sqrt (1 - a))
      in R * c)"

subsection \<open>State of the hook and the position callback\<close>

text \<open>
  A position as the Geolocation API delivers it: \<open>coords.speed\<close> is in metres per
  second and null when the device reports none.
\<close>

record Position =
  latitude :: real
  longitude :: real
  coords_accuracy :: real
  coords_speed :: "real option"

text \<open>
  The React state of the hook (\<open>useState\<close>) and its refs (\<open>useRef\<close>). The states
  \<open>error\<close>, \<open>isDetecting\<close> and \<open>lastUpdate\<close> (which the callback only overwrites with
  null and the clock) and the unused \<open>wasOnTrain\<close> are left out. Times are
  \<open>Date.now()\<close> in milliseconds.
\<close>

record Detection =
  isOnTrain :: bool
  currentLine :: "string option"
  location :: "Location option"
  speed :: number
  lowSpeedCount :: nat
  previousTrainStatusRef :: bool
  previousLocationRef :: "Location option"
  lastUpdateRef :: int

definition initialDetection :: "int \<Rightarrow> Detection" where
  "initialDetection now =
     \<lparr>isOnTrain = False, currentLine = None, location = None, speed = Fin 0,
      lowSpeedCount = 0, previousTrainStatusRef = False, previousLocationRef = None,
      lastUpdateRef = now\<rparr>"

text \<open>
  What the callback reads besides the position and the state:
  \<^item> \<open>isDevelopment\<close>: \<open>__DEV__ || process.env.NODE_ENV === 'development'\<close>;
  \<^item> \<open>closureLowSpeedCount\<close>: the test \<open>lowSpeedCount >= 2\<close> reads the variable
    \<open>lowSpeedCount\<close> of the render in which \<open>startDetection\<close> was called, while the
    state itself is updated through \<open>setLowSpeedCount(prev => prev + 1)\<close>. What the test
    reads is therefore given as a function of the state: \<open>\<lambda>_. 0\<close> for the callback
    registered at mount (the value of the first render), \<open>lowSpeedCount\<close> for a
    callback that would see the current state;
  \<^item> \<open>hasExitCallback\<close>: whether \<open>onTrainExitRef.current\<close> is set.
\<close>

record Env =
  isDevelopment :: bool
  closureLowSpeedCount :: "Detection \<Rightarrow> nat"
  hasExitCallback :: bool

text \<open>
  The speed of a fix that has a predecessor: \<open>rawSpeed = (distance / timeDiff) * 3.6\<close>
  and the three branches that follow it; \<open>rnd\<close> is the value of \<open>Math.random()\<close>.
\<close>

definition speedFromDelta :: "real \<Rightarrow> real \<Rightarrow> real \<Rightarrow> number" where
  "speedFromDelta rnd distance timeDiff =
     (let rawSpeed = js_times (js_div distance timeDiff) 3.6
      in if js_gt rawSpeed 200 then Fin (rnd * 40 + 40)
         else if js_lt rawSpeed 5 \<and> 2 < timeDiff then rawSpeed
         else rawSpeed)"

text \<open>The speed of the first fix: the reported speed, at most 100 km/h, or 0.\<close>

definition initialSpeed :: "Position \<Rightarrow> number" where
  "initialSpeed position =
     (case coords_speed position of
        None \<Rightarrow> Fin 0
      | Some v \<Rightarrow> if v \<noteq> 0 then Fin (min (v * 3.6) 100) else Fin 0)"

definition newLocationOf :: "Position \<Rightarrow> Location" where
  "newLocationOf position =
     \<lparr>lat = latitude position, lng = longitude position,
      accuracy = Some (coords_accuracy position)\<rparr>"

definition calculatedSpeedOf :: "real \<Rightarrow> Detection \<Rightarrow> Position \<Rightarrow> int \<Rightarrow> number" where
  "calculatedSpeedOf rnd st position currentTime =
     (case previousLocationRef st of
        None \<Rightarrow> initialSpeed position
      | Some previous \<Rightarrow>
          if lastUpdateRef st \<noteq> 0
          then speedFromDelta rnd (calculateDistance previous (newLocationOf position))
                 (real_of_int (currentTime - lastUpdateRef st) / 1000)
          else initialSpeed position)"

text \<open>The train test of the callback, in development and in production.\<close>

definition isTrainDetectedOf :: "Env \<Rightarrow> Detection \<Rightarrow> number \<Rightarrow> Location \<Rightarrow> bool" where
  "isTrainDetectedOf env st calculatedSpeed newLocation =
     (if isDevelopment env
      then (let hasMultipleUpdates = (previousLocationRef st \<noteq> None);
                isTrainSpeed = (js_ge calculatedSpeed 30 \<and> js_le calculatedSpeed 120);
                hasTrainLine = (detectTrainLine newLocation \<noteq> None)
            in hasMultipleUpdates \<and> isTrainSpeed \<and> hasTrainLine)
      else js_gt calculatedSpeed 20 \<and> js_lt calculatedSpeed 100)"

text \<open>\<open>line || 'JR...'\<close>: the fallback replaces null and the empty string.\<close>

definition lineOrDefault :: "string option \<Rightarrow> string" where
  "lineOrDefault line = (case line of None \<Rightarrow> yamanote | Some l \<Rightarrow> if l = [] then yamanote else l)"

text \<open>
  The callback from \<open>setSpeed(calculatedSpeed)\<close> to its end: the train test, the
  alighting logic and the update of the refs. The second component of the result says
  whether the exit callback \<open>onTrainExit\<close> was scheduled.
\<close>

definition classify :: "Env \<Rightarrow> number \<Rightarrow> Location \<Rightarrow> int \<Rightarrow> Detection \<Rightarrow> Detection \<times> bool" where
  "classify env calculatedSpeed newLocation currentTime st =
     (let st1 = st\<lparr>location := Some newLocation, speed := calculatedSpeed\<rparr>;
          isTrainDetected = isTrainDetectedOf env st calculatedSpeed newLocation;
          wasOnTrainPreviously = previousTrainStatusRef st;
          (st2, fired) =
            (if wasOnTrainPreviously \<and> \<not> isTrainDetected then
               (if js_lt calculatedSpeed 15 then
                  (let st' = st1\<lparr>lowSpeedCount := lowSpeedCount st1 + 1\<rparr>
                   in if 2 \<le> closureLowSpeedCount env st
                      then (st'\<lparr>isOnTrain := False, currentLine := None, lowSpeedCount := 0\<rparr>,
                            hasExitCallback env)
                      else (st', False))
                else (st1\<lparr>lowSpeedCount := 0\<rparr>, False))
             else
               (st1\<lparr>isOnTrain := isTrainDetected, lowSpeedCount := 0,
                    currentLine := (if isTrainDetected
                                    then Some (lineOrDefault (detectTrainLine newLocation))
                                    else None)\<rparr>,
                False))
      in (st2\<lparr>previousTrainStatusRef := isTrainDetected,
              previousLocationRef := Some newLocation,
              lastUpdateRef := currentTime\<rparr>, fired))"

text \<open>The whole \<open>successCallback\<close>: the speed of the fix, then the classification.\<close>

definition successCallback :: "Env \<Rightarrow> real \<Rightarrow> Position \<Rightarrow> int \<Rightarrow> Detection \<Rightarrow> Detection \<times> bool" where
  "successCallback env rnd position currentTime st =
     classify env (calculatedSpeedOf rnd st position currentTime)
       (newLocationOf position) currentTime st"



text \<open>
  A stream of fixes given by the speed each one produces, its location and its time;
  the result lists, fix by fix, the state after the fix and whether the exit callback
  was scheduled.
\<close>

fun observe :: "Env \<Rightarrow> Detection \<Rightarrow> (number \<times> Location \<times> int) list \<Rightarrow> (Detection \<times> bool) list" where
  "observe env st [] = []"
| "observe env st ((v, l, t) # rest) =
     (let r = classify env v l t st in r # observe env (fst r) rest)"

text \<open>
  The positions at which a list of \<open>isOnTrain\<close> values turns from false to true, given
  the value before the list. This only rereads such a list; the effect of the detection
  screen that reacts to the status is the subject of the next subsection.
\<close>

fun boardings :: "bool \<Rightarrow> bool list \<Rightarrow> bool list" where
  "boardings before [] = []"
| "boardings before (after # rest) = (\<not> before \<and> after) # boardings after rest"

subsection \<open>The detection screen (TrainDetectionScreen)\<close>








subsection \<open>Fixes used as examples\<close>

text \<open>
  The reference point of the first line of the table (the first mock location of the
  source), as a location and as a position without a reported speed.
\<close>

definition tokyo :: Location where
  "tokyo = \<lparr>lat = 35.6762, lng = 139.6503, accuracy = Some 10\<rparr>"

definition tokyoPosition :: Position where
  "tokyoPosition =
     \<lparr>latitude = 35.6762, longitude = 139.6503, coords_accuracy = 10, coords_speed = None\<rparr>"

text \<open>
  Development builds: the callback registered at mount, which reads the
  \<open>lowSpeedCount\<close> of the first render, and a callback that would read the current one.
  A production build.
\<close>

definition devMount :: Env where
  "devMount = \<lparr>isDevelopment = True, closureLowSpeedCount = (\<lambda>_. 0), hasExitCallback = True\<rparr>"

definition devLive :: Env where
  "devLive = \<lparr>isDevelopment = True, closureLowSpeedCount = lowSpeedCount, hasExitCallback = True\<rparr>"

definition production :: Env where
  "production = \<lparr>isDevelopment = False, closureLowSpeedCount = (\<lambda>_. 0), hasExitCallback = True\<rparr>"

text \<open>Seven fixes at the reference point, three seconds apart, with the speeds of the specification.\<close>

definition ride :: "(number \<times> Location \<times> int) list" where
  "ride =
     [(Fin 10, tokyo, 1000), (Fin 40, tokyo, 4000), (Fin 50, tokyo, 7000),
      (Fin 45, tokyo, 10000), (Fin 8, tokyo, 13000), (Fin 8, tokyo, 16000),
      (Fin 8, tokyo, 19000)]"

text \<open>The states after the first fix of the ride and after its second fix.\<close>

definition walking :: Detection where
  "walking =
     \<lparr>isOnTrain = False, currentLine = None, location = Some tokyo, speed = Fin 10,
      lowSpeedCount = 0, previousTrainStatusRef = False, previousLocationRef = Some tokyo,
      lastUpdateRef = 1000\<rparr>"

definition riding :: Detection where
  "riding =
     \<lparr>isOnTrain = True, currentLine = Some yamanote, location = Some tokyo, speed = Fin 40,
      lowSpeedCount = 0, previousTrainStatusRef = True, previousLocationRef = Some tokyo,
      lastUpdateRef = 4000\<rparr>"

text \<open>
  A fix 0.04 degrees north of the reference point, still inside the radius of the first
  line.
\<close>

definition jumpNorth :: Position where
  "jumpNorth =
     \<lparr>latitude = 35.7162, longitude = 139.6503, coords_accuracy = 10, coords_speed = None\<rparr>"






text \<open>A first fix far from every line, with a reported speed of 10 m/s.\<close>

definition offshore :: Position where
  "offshore = \<lparr>latitude = 0, longitude = 0, coords_accuracy = 10, coords_speed = Some 10\<rparr>"

section \<open>Chat server\<close>

subsection \<open>Data\<close>

record User =
  user_id :: string
  socketId :: string
  nickname :: string
  roomId :: "string option"
  joinedAt :: int

record Message =
  message_id :: string
  message_roomId :: string
  message_userId :: string
  message_nickname :: string
  message_text :: string
  message_timestamp :: int

text \<open>
  \<open>users: Map<string, User>\<close> is kept as the list of its entries in insertion order,
  the order in which \<open>forEach\<close> and \<open>values()\<close> visit them; its \<open>size\<close> is the length
  of the list.
\<close>

record Room =
  room_id :: string
  trainLine :: string
  users :: "(string \<times> User) list"
  messages :: "Message list"
  createdAt :: int

text \<open>The two tables of the module, \<open>users\<close> and \<open>rooms\<close>.\<close>

record Server =
  userTable :: "string \<rightharpoonup> User"
  rooms :: "string \<rightharpoonup> Room"

definition initialServer :: Server where
  "initialServer = \<lparr>userTable = Map.empty, rooms = Map.empty\<rparr>"

text \<open>What the server sends: \<open>io.to(socketId).emit(event, data)\<close>, or the reply of a callback.\<close>

datatype 'd Output = Emit string string 'd | Ack string 'd

text \<open>
  A listener that throws ends the process; the tables are gone with it.
\<close>

datatype ServerError = TypeError

subsection \<open>Utility functions\<close>


definition deleteRoom :: "string \<Rightarrow> (string \<rightharpoonup> Room) \<Rightarrow> (string \<rightharpoonup> Room)" where
  "deleteRoom rid rs =
     (case rs rid of
        None \<Rightarrow> rs
      | Some room \<Rightarrow> if length (users room) = 0 then rs(rid := None) else rs)"

definition broadcastToRoom :: "(string \<rightharpoonup> Room) \<Rightarrow> string \<Rightarrow> string \<Rightarrow> 'd \<Rightarrow> string option \<Rightarrow> 'd Output list" where
  "broadcastToRoom rs rid event data excludeSocketId =
     (case rs rid of
        None \<Rightarrow> []
      | Some room \<Rightarrow>
          map (\<lambda>(k, user). Emit (socketId user) event data)
            (filter (\<lambda>(k, user). Some (socketId user) \<noteq> excludeSocketId) (users room)))"

definition getRoomUsers :: "(string \<rightharpoonup> Room) \<Rightarrow> string \<Rightarrow> (string \<times> string) list" where
  "getRoomUsers rs rid =
     (case rs rid of
        None \<Rightarrow> []
      | Some room \<Rightarrow> map (\<lambda>(k, user). (user_id user, nickname user)) (users room))"

subsection \<open>Socket events\<close>

text \<open>
  The events a socket can deliver: the connection itself, the two events for which
  \<open>io.on('connection', ...)\<close> registers a listener (\<open>disconnect\<close> and \<open>ping\<close>, the
  latter with its first argument), and the events the client's socket manager
  emits (\<open>joinRoom{roomId, trainId, trainLine, nickname}\<close>, \<open>leaveRoom{roomId}\<close>,
  \<open>sendMessage{roomId, message, nickname, timestamp}\<close>, \<open>updateNickname\<close>,
  \<open>trainDetected\<close>, \<open>trainLeft\<close>), for which it registers none.
\<close>

text \<open>
  The first argument of a \<open>ping\<close>: none or a falsy value, an acknowledgement function,
  or any other truthy value.
\<close>

datatype PingArgument = NoArgument | AckFunction | OtherValue

datatype SocketEvent =
    Connection
  | Disconnect
  | Ping PingArgument
  | JoinRoom string string string string
  | LeaveRoom string
  | SendMessage string string string int
  | UpdateNickname string
  | TrainDetected string string
  | TrainLeft

text \<open>
  The handler of the source. The connection handler emits \<open>connected\<close> to the new
  socket; the \<open>disconnect\<close> listener only logs; the \<open>ping\<close> listener runs
  \<open>if (callback) callback({ message: 'pong' })\<close>, which replies when the argument is a
  function and throws a TypeError when it is another truthy value; an event without a
  listener is dropped. Console output is not modelled.
\<close>

fun onEvent :: "string \<Rightarrow> SocketEvent \<Rightarrow> Server \<Rightarrow> ServerError + Server \<times> string Output list" where
  "onEvent sid Connection st =
     Inr (st, [Emit sid ''connected'' ''Socket.IO connection successful''])"
| "onEvent sid Disconnect st = Inr (st, [])"
| "onEvent sid (Ping NoArgument) st = Inr (st, [])"
| "onEvent sid (Ping AckFunction) st = Inr (st, [Ack sid ''pong''])"
| "onEvent sid (Ping OtherValue) st = Inl TypeError"
| "onEvent sid (JoinRoom rid trainId line nick) st = Inr (st, [])"
| "onEvent sid (LeaveRoom rid) st = Inr (st, [])"
| "onEvent sid (SendMessage rid message nick timestamp) st = Inr (st, [])"
| "onEvent sid (UpdateNickname nick) st = Inr (st, [])"
| "onEvent sid (TrainDetected trainId line) st = Inr (st, [])"
| "onEvent sid TrainLeft st = Inr (st, [])"

text \<open>
  A sequence of events, each with the id of the socket it comes from; it ends at the
  first event whose listener throws.
\<close>

fun serve :: "Server \<Rightarrow> (string \<times> SocketEvent) list \<Rightarrow> ServerError + Server \<times> string Output list" where
  "serve st [] = Inr (st, [])"
| "serve st ((sid, ev) # rest) =
     (case onEvent sid ev st of
        Inl e \<Rightarrow> Inl e
      | Inr (st1, out1) \<Rightarrow>
          (case serve st1 rest of
             Inl e \<Rightarrow> Inl e
           | Inr (st2, out2) \<Rightarrow> Inr (st2, out1 @ out2)))"



subsection \<open>Tables used as examples\<close>

definition alice :: User where
  "alice = \<lparr>user_id = ''A'', socketId = ''sa'', nickname = ''alice'', roomId = Some ''R'', joinedAt = 0\<rparr>"

definition bob :: User where
  "bob = \<lparr>user_id = ''B'', socketId = ''sb'', nickname = ''bob'', roomId = Some ''R'', joinedAt = 1\<rparr>"

definition roomOf :: "(string \<times> User) list \<Rightarrow> Room" where
  "roomOf members =
     \<lparr>room_id = ''R'', trainLine = yamanote, users = members, messages = [], createdAt = 0\<rparr>"

definition twoInRoom :: Server where
  "twoInRoom =
     \<lparr>userTable = [''A'' \<mapsto> alice, ''B'' \<mapsto> bob],
      rooms = [''R'' \<mapsto> roomOf [(''A'', alice), (''B'', bob)]]\<rparr>"

section \<open>Line resolver\<close>

lemma detectLoop_find:
  "detectLoop table loc =
     map_option name (find (\<lambda>e. planar loc e < radius e) table)"
  by (induction table) simp_all

text \<open>
  C6. The line resolver is a function of the coordinates alone: for every location it
  returns the label of the first entry of its static table whose planar distance in
  degrees from the point is strictly below the entry's radius, and null when no entry
  matches. (The accuracy field of the location is not read; the table is a constant of
  the function and nothing is mutated, so equal coordinates give equal results.)
\<close>

theorem detectTrainLine_first_match:
  "detectTrainLine \<lparr>lat = la, lng = lo, accuracy = acc\<rparr> =
     resolve_spec lines \<lparr>lat = la, lng = lo, accuracy = None\<rparr>
   \<and> detectTrainLine \<lparr>lat = la, lng = lo, accuracy = acc\<rparr> =
     (if sqrt ((la - 35.6762)\<^sup>2 + (lo - 139.6503)\<^sup>2) < 0.05 then Some yamanote
      else if sqrt ((la - 35.6581)\<^sup>2 + (lo - 139.7414)\<^sup>2) < 0.03 then Some chuo
      else if sqrt ((la - 35.7281)\<^sup>2 + (lo - 139.7186)\<^sup>2) < 0.03 then Some keihin_tohoku
      else None)"
  by (simp add: detectTrainLine_def resolve_spec_def detectLoop_find lines_def planar_def)

section \<open>Properties of the train detection hook\<close>

subsection \<open>The branches of the classification\<close>

lemma classify_detected:
  "isTrainDetectedOf env st v l \<Longrightarrow>
   classify env v l t st =
     (st\<lparr>location := Some l, speed := v, isOnTrain := True, lowSpeedCount := 0,
         currentLine := Some (lineOrDefault (detectTrainLine l)),
         previousTrainStatusRef := True, previousLocationRef := Some l,
         lastUpdateRef := t\<rparr>, False)"
  by (simp add: classify_def)

lemma classify_idle:
  "\<not> isTrainDetectedOf env st v l \<Longrightarrow> \<not> previousTrainStatusRef st \<Longrightarrow>
   classify env v l t st =
     (st\<lparr>location := Some l, speed := v, isOnTrain := False, lowSpeedCount := 0,
         currentLine := None,
         previousTrainStatusRef := False, previousLocationRef := Some l,
         lastUpdateRef := t\<rparr>, False)"
  by (simp add: classify_def)

lemma classify_low_pending:
  "\<not> isTrainDetectedOf env st v l \<Longrightarrow> previousTrainStatusRef st \<Longrightarrow> js_lt v 15 \<Longrightarrow>
   closureLowSpeedCount env st < 2 \<Longrightarrow>
   classify env v l t st =
     (st\<lparr>location := Some l, speed := v, lowSpeedCount := lowSpeedCount st + 1,
         previousTrainStatusRef := False, previousLocationRef := Some l,
         lastUpdateRef := t\<rparr>, False)"
  by (simp add: classify_def)

lemma classify_faster:
  "\<not> isTrainDetectedOf env st v l \<Longrightarrow> previousTrainStatusRef st \<Longrightarrow> \<not> js_lt v 15 \<Longrightarrow>
   classify env v l t st =
     (st\<lparr>location := Some l, speed := v, lowSpeedCount := 0,
         previousTrainStatusRef := False, previousLocationRef := Some l,
         lastUpdateRef := t\<rparr>, False)"
  by (simp add: classify_def)


lemma tokyo_line: "detectTrainLine tokyo = Some yamanote"
  by (simp add: detectTrainLine_def lines_def planar_def tokyo_def)

lemma detected_tokyo:
  "isDevelopment env \<Longrightarrow>
   isTrainDetectedOf env st (Fin v) tokyo = (previousLocationRef st \<noteq> None \<and> 30 \<le> v \<and> v \<le> 120)"
  by (simp add: isTrainDetectedOf_def tokyo_line)

lemma yamanote_default: "lineOrDefault (Some yamanote) = yamanote"
  by (simp add: lineOrDefault_def yamanote_def)

lemma ride_states:
  assumes dev: "isDevelopment env" and low: "closureLowSpeedCount env riding' < 2"
    and r: "riding' = riding\<lparr>speed := Fin 45, lastUpdateRef := 10000\<rparr>"
  shows "map fst (observe env (initialDetection 500) ride) =
    [walking, riding, riding\<lparr>speed := Fin 50, lastUpdateRef := 7000\<rparr>, riding',
     riding\<lparr>speed := Fin 8, lowSpeedCount := 1, previousTrainStatusRef := False, lastUpdateRef := 13000\<rparr>,
     walking\<lparr>speed := Fin 8, lastUpdateRef := 16000\<rparr>,
     walking\<lparr>speed := Fin 8, lastUpdateRef := 19000\<rparr>]
   \<and> map snd (observe env (initialDetection 500) ride) = replicate 7 False"
  unfolding ride_def observe.simps Let_def
  using low unfolding r
  by (simp add: initialDetection_def walking_def riding_def classify_idle classify_detected
      classify_low_pending detected_tokyo[OF dev] tokyo_line yamanote_default numeral_eq_Suc)


subsection \<open>Alighting\<close>

lemma devMount_dev: "isDevelopment devMount" and devLive_dev: "isDevelopment devLive"
  by (simp_all add: devMount_def devLive_def)

lemma devMount_closure: "closureLowSpeedCount devMount st = 0"
  by (simp add: devMount_def)

lemma devLive_closure: "closureLowSpeedCount devLive st = lowSpeedCount st"
  by (simp add: devLive_def)

lemma ride_devMount:
  "map (isOnTrain \<circ> fst) (observe devMount (initialDetection 500) ride) =
     [False, True, True, True, True, False, False]
   \<and> map snd (observe devMount (initialDetection 500) ride) = replicate 7 False"
proof -
  have "map (isOnTrain \<circ> fst) (observe devMount (initialDetection 500) ride) =
        map isOnTrain (map fst (observe devMount (initialDetection 500) ride))"
    by simp
  then show ?thesis
    using ride_states[OF devMount_dev, of "riding\<lparr>speed := Fin 45, lastUpdateRef := 10000\<rparr>"]
    by (simp add: devMount_closure walking_def riding_def)
qed

lemma ride_devLive:
  "map (isOnTrain \<circ> fst) (observe devLive (initialDetection 500) ride) =
     [False, True, True, True, True, False, False]
   \<and> map snd (observe devLive (initialDetection 500) ride) = replicate 7 False"
proof -
  have "map (isOnTrain \<circ> fst) (observe devLive (initialDetection 500) ride) =
        map isOnTrain (map fst (observe devLive (initialDetection 500) ride))"
    by simp
  then show ?thesis
    using ride_states[OF devLive_dev, of "riding\<lparr>speed := Fin 45, lastUpdateRef := 10000\<rparr>"]
    by (simp add: devLive_closure walking_def riding_def)
qed

text \<open>
  The ride of the specification, in a development build. Boarding is reported after the
  second fix (the first fix with a predecessor), not after the third. The first sample
  below 15 km/h leaves \<open>isOnTrain\<close> set but records the fix as not-train in
  \<open>previousTrainStatusRef\<close>, so the second one takes the ordinary branch, which clears
  \<open>isOnTrain\<close> after the sixth fix; the exit callback is scheduled after no fix,
  whether the callback reads the \<open>lowSpeedCount\<close> of the first render or the current one.
\<close>

theorem alight_on_third_sample_counterexample:
  "boardings False (map (isOnTrain \<circ> fst) (observe devMount (initialDetection 500) ride)) =
     [False, True, False, False, False, False, False]
   \<and> map (isOnTrain \<circ> fst) (observe devMount (initialDetection 500) ride) =
     [False, True, True, True, True, False, False]
   \<and> map snd (observe devMount (initialDetection 500) ride) =
     [False, False, False, False, False, False, False]
   \<and> map (isOnTrain \<circ> fst) (observe devLive (initialDetection 500) ride) =
     [False, True, True, True, True, False, False]
   \<and> map snd (observe devLive (initialDetection 500) ride) =
     [False, False, False, False, False, False, False]"
  using ride_devMount ride_devLive by (simp add: numeral_eq_Suc)

text \<open>
  C1 (as amended). For every fix that arrives while the previous fix was classified as
  train, that is itself not classified as train and has a computed speed below
  15 km/h, as long as the \<open>lowSpeedCount\<close> the callback reads is below 2 (as it is on
  the first such sample), the alight event does not fire: \<open>isOnTrain\<close> and the line
  stay as they were, the low-speed counter of the state is incremented and the exit
  callback is not scheduled. In particular, for fixes producing speeds
  [10, 40, 50, 45, 8, 8, 8] km/h within the radius of a line, boarding is reported
  after the second fix, and the rider is still reported on the train, with no exit
  callback, after the fifth fix (the first sample below 15 km/h).
\<close>

theorem first_low_sample_keeps_train:
  "(previousTrainStatusRef st \<and> \<not> isTrainDetectedOf env st v l \<and> js_lt v 15 \<and>
    closureLowSpeedCount env st < 2 \<longrightarrow>
      isOnTrain (fst (classify env v l t st)) = isOnTrain st \<and>
      currentLine (fst (classify env v l t st)) = currentLine st \<and>
      lowSpeedCount (fst (classify env v l t st)) = lowSpeedCount st + 1 \<and>
      \<not> snd (classify env v l t st))
   \<and> take 5 (boardings False (map (isOnTrain \<circ> fst) (observe devMount (initialDetection 500) ride))) =
       [False, True, False, False, False]
   \<and> take 5 (map (isOnTrain \<circ> fst) (observe devMount (initialDetection 500) ride)) =
       [False, True, True, True, True]
   \<and> take 5 (map snd (observe devMount (initialDetection 500) ride)) =
       [False, False, False, False, False]"
  using ride_devMount by (simp add: classify_low_pending numeral_eq_Suc)

theorem first_low_sample_keeps_train_witness:
  "previousTrainStatusRef riding \<and> \<not> isTrainDetectedOf devMount riding (Fin 8) tokyo \<and>
   js_lt (Fin 8) 15 \<and> closureLowSpeedCount devMount riding < 2 \<and>
   isOnTrain (fst (classify devMount (Fin 8) tokyo 7000 riding)) \<and>
   currentLine (fst (classify devMount (Fin 8) tokyo 7000 riding)) = Some yamanote \<and>
   lowSpeedCount (fst (classify devMount (Fin 8) tokyo 7000 riding)) = 1 \<and>
   \<not> snd (classify devMount (Fin 8) tokyo 7000 riding)"
proof -
  have h: "previousTrainStatusRef riding \<and> \<not> isTrainDetectedOf devMount riding (Fin 8) tokyo \<and>
      js_lt (Fin 8) 15 \<and> closureLowSpeedCount devMount riding < 2"
    by (simp add: riding_def detected_tokyo[OF devMount_dev] devMount_closure)
  show ?thesis
    using h first_low_sample_keeps_train[of riding devMount "Fin 8" tokyo 7000]
    by (simp add: riding_def)
qed

subsection \<open>Speed of a fix\<close>

lemma atan2_sin_cos: "0 \<le> x \<Longrightarrow> x < pi / 2 \<Longrightarrow> atan2 (sin x) (cos x) = x"
proof -
  assume x: "0 \<le> x" "x < pi / 2"
  then have c: "0 < cos x" by (intro cos_gt_zero_pi) auto
  have "arctan (sin x / cos x) = x"
    using arctan_tan[of x] x by (simp add: tan_def)
  with c show ?thesis by (simp add: atan2_def)
qed

lemma calculateDistance_meridian:
  assumes "lng l1 = lng l2" and "\<bar>lat l2 - lat l1\<bar> < 180"
  shows "calculateDistance l1 l2 = 6371000 * \<bar>lat l2 - lat l1\<bar> * pi / 180"
proof -
  define x where "x = \<bar>lat l2 - lat l1\<bar> * pi / 360"
  have x0: "0 \<le> x" by (simp add: x_def)
  have "\<bar>lat l2 - lat l1\<bar> * pi < 180 * pi" using assms(2) by simp
  then have x1: "x < pi / 2" by (simp add: x_def)
  have s0: "0 \<le> sin x" using x0 x1 by (intro sin_ge_zero) auto
  have c0: "0 < cos x" using x0 x1 by (intro cos_gt_zero_pi) auto
  have sq: "sin ((lat l2 - lat l1) * pi / 180 / 2) * sin ((lat l2 - lat l1) * pi / 180 / 2) = (sin x)\<^sup>2"
  proof (cases "0 \<le> lat l2 - lat l1")
    case True
    then show ?thesis by (simp add: x_def power2_eq_square)
  next
    case False
    then have "\<bar>lat l2 - lat l1\<bar> = - (lat l2 - lat l1)" by simp
    then have "x = - (lat l2 - lat l1) * pi / 360" unfolding x_def by simp
    then have "(lat l2 - lat l1) * pi / 180 / 2 = - x" by (simp add: algebra_simps)
    then show ?thesis by (simp add: power2_eq_square)
  qed
  have a: "sqrt ((sin x)\<^sup>2) = sin x" using s0 by simp
  have "1 - (sin x)\<^sup>2 = (cos x)\<^sup>2" by (simp add: cos_squared_eq)
  then have b: "sqrt (1 - (sin x)\<^sup>2) = cos x" using c0 by simp
  have "calculateDistance l1 l2 = 6371000 * (2 * atan2 (sin x) (cos x))"
    unfolding calculateDistance_def Let_def using assms(1) sq s0 by (simp add: a b)
  also have "\<dots> = 6371000 * (2 * x)" using atan2_sin_cos[OF x0 x1] by simp
  also have "\<dots> = 6371000 * \<bar>lat l2 - lat l1\<bar> * pi / 180" by (simp add: x_def)
  finally show ?thesis .
qed

lemma calculateDistance_same: "calculateDistance l l = 0"
  by (simp add: calculateDistance_def atan2_def)


lemma calculatedSpeedOf_delta:
  "previousLocationRef st = Some previous \<Longrightarrow> lastUpdateRef st \<noteq> 0 \<Longrightarrow>
   calculatedSpeedOf rnd st position currentTime =
     speedFromDelta rnd (calculateDistance previous (newLocationOf position))
       (real_of_int (currentTime - lastUpdateRef st) / 1000)"
  by (simp add: calculatedSpeedOf_def)




lemma distance_jumpNorth: "calculateDistance tokyo (newLocationOf jumpNorth) = 6371000 * 0.04 * pi / 180"
  using calculateDistance_meridian[of tokyo "newLocationOf jumpNorth"]
  by (simp add: tokyo_def newLocationOf_def jumpNorth_def)

lemma raw_jumpNorth:
  "js_gt (js_times (js_div (calculateDistance tokyo (newLocationOf jumpNorth))
            (real_of_int (4000 - lastUpdateRef walking) / 1000)) 3.6) 200"
proof -
  have "(200::real) < 6371000 * 0.04 * 2 / 180 / 3 * 3.6" by simp
  also have "\<dots> \<le> 6371000 * 0.04 * pi / 180 / 3 * 3.6" using pi_ge_two by simp
  finally show ?thesis
    by (simp add: distance_jumpNorth walking_def js_div_def)
qed


subsection \<open>Boarding\<close>

lemma detectLoop_skip:
  "radius line \<le> \<bar>lng loc - line_lng line\<bar> \<Longrightarrow> detectLoop (line # rest) loc = detectLoop rest loc"
proof -
  assume far: "radius line \<le> \<bar>lng loc - line_lng line\<bar>"
  have "\<bar>lng loc - line_lng line\<bar> = sqrt ((lng loc - line_lng line)\<^sup>2)" by simp
  also have "\<dots> \<le> planar loc line" unfolding planar_def by (rule real_sqrt_le_mono) simp
  finally show ?thesis using far by simp
qed

lemma offshore_line: "detectTrainLine (newLocationOf offshore) = None"
  by (simp add: detectTrainLine_def lines_def detectLoop_skip newLocationOf_def offshore_def
      del: detectLoop.simps(2))

lemma jumpNorth_line: "detectTrainLine (newLocationOf jumpNorth) = Some yamanote"
  by (simp add: detectTrainLine_def lines_def planar_def newLocationOf_def jumpNorth_def)

lemma isOnTrain_classify:
  "isOnTrain (fst (classify env v l t st)) \<Longrightarrow>
   isTrainDetectedOf env st v l \<or> (isOnTrain st \<and> previousTrainStatusRef st)"
  by (simp add: classify_def Let_def split: if_splits)

text \<open>
  A production build boards on the first-ever fix, far from every line, on the reported
  speed alone (36 km/h), under the fallback label. In a development build, a fix at
  8 km/h that follows a train fix leaves \<open>isOnTrain\<close> set.
\<close>

theorem boarding_conditions_counterexample:
  "isOnTrain (fst (successCallback production 0 offshore 1000 (initialDetection 500)))
   \<and> currentLine (fst (successCallback production 0 offshore 1000 (initialDetection 500))) =
       Some yamanote
   \<and> previousLocationRef (initialDetection 500) = None
   \<and> detectTrainLine (newLocationOf offshore) = None
   \<and> isOnTrain (fst (classify devMount (Fin 8) tokyo 7000 riding))
   \<and> \<not> js_ge (Fin 8) 30"
proof -
  have v: "calculatedSpeedOf 0 (initialDetection 500) offshore 1000 = Fin 36"
    by (simp add: calculatedSpeedOf_def initialDetection_def initialSpeed_def offshore_def)
  have d: "isTrainDetectedOf production (initialDetection 500) (Fin 36) (newLocationOf offshore)"
    by (simp add: isTrainDetectedOf_def production_def)
  have "\<not> isTrainDetectedOf devMount riding (Fin 8) tokyo"
    by (simp add: detected_tokyo[OF devMount_dev])
  then have carry: "isOnTrain (fst (classify devMount (Fin 8) tokyo 7000 riding))"
    by (simp add: classify_low_pending devMount_closure riding_def)
  have "successCallback production 0 offshore 1000 (initialDetection 500) =
      classify production (Fin 36) (newLocationOf offshore) 1000 (initialDetection 500)"
    by (simp add: successCallback_def v)
  then have board: "isOnTrain (fst (successCallback production 0 offshore 1000 (initialDetection 500)))
      \<and> currentLine (fst (successCallback production 0 offshore 1000 (initialDetection 500))) =
          Some yamanote"
    by (simp add: classify_detected[OF d] offshore_line lineOrDefault_def)
  have "previousLocationRef (initialDetection 500) = None"
    by (simp add: initialDetection_def)
  with carry board show ?thesis
    by (simp add: offshore_line)
qed

text \<open>
  C3 (as amended). In a development build, for every fix, \<open>isOnTrain\<close> is true after
  the fix only if all three hold (the computed speed is between 30 and 120 km/h, the line
  resolver returns a line for the coordinates of the fix, and a prior fix exists), or
  if it was true before the fix and the previous fix was classified as train (the
  alighting logic keeps it). Consequently, in a development build, a first-ever fix
  never produces a boarding, and a fix for which no line resolves never produces one.
  In a production build the three conditions are replaced by the single test
  20 < speed < 100 km/h.
\<close>

theorem boarding_needs_speed_line_and_prior_fix:
  fixes env rnd position currentTime st
  defines "v \<equiv> calculatedSpeedOf rnd st position currentTime"
    and "after \<equiv> fst (successCallback env rnd position currentTime st)"
  shows "(isDevelopment env \<and> isOnTrain after \<longrightarrow>
            (previousLocationRef st \<noteq> None \<and> js_ge v 30 \<and> js_le v 120 \<and>
             detectTrainLine (newLocationOf position) \<noteq> None)
            \<or> (isOnTrain st \<and> previousTrainStatusRef st))
       \<and> (isDevelopment env \<and> \<not> isOnTrain st \<and> previousLocationRef st = None \<longrightarrow>
            \<not> isOnTrain after)
       \<and> (isDevelopment env \<and> \<not> isOnTrain st \<and> detectTrainLine (newLocationOf position) = None \<longrightarrow>
            \<not> isOnTrain after)
       \<and> (\<not> isDevelopment env \<and> isOnTrain after \<longrightarrow>
            (js_gt v 20 \<and> js_lt v 100) \<or> (isOnTrain st \<and> previousTrainStatusRef st))"
  using isOnTrain_classify[of env v "newLocationOf position" currentTime st]
  unfolding after_def v_def successCallback_def
  by (auto simp: isTrainDetectedOf_def)

lemma speed_jumpNorth: "calculatedSpeedOf (1/2) walking jumpNorth 4000 = Fin 60"
  using raw_jumpNorth
  by (simp add: calculatedSpeedOf_def speedFromDelta_def walking_def Let_def)

theorem boarding_needs_speed_line_and_prior_fix_witness:
  "isDevelopment devMount
   \<and> isOnTrain (fst (successCallback devMount (1/2) jumpNorth 4000 walking))
   \<and> \<not> isOnTrain walking
   \<and> previousLocationRef walking \<noteq> None
   \<and> js_ge (calculatedSpeedOf (1/2) walking jumpNorth 4000) 30
   \<and> js_le (calculatedSpeedOf (1/2) walking jumpNorth 4000) 120
   \<and> detectTrainLine (newLocationOf jumpNorth) \<noteq> None
   \<and> previousLocationRef (initialDetection 500) = None
   \<and> \<not> isOnTrain (fst (successCallback devMount (1/2) jumpNorth 4000 (initialDetection 500)))"
proof -
  have d: "isTrainDetectedOf devMount walking (Fin 60) (newLocationOf jumpNorth)"
    by (simp add: isTrainDetectedOf_def devMount_dev jumpNorth_line walking_def)
  have b: "isOnTrain (fst (successCallback devMount (1/2) jumpNorth 4000 walking))"
    by (simp add: successCallback_def speed_jumpNorth classify_detected[OF d])
  have w: "\<not> isOnTrain walking" by (simp add: walking_def)
  have i: "\<not> isOnTrain (initialDetection 500) \<and> previousLocationRef (initialDetection 500) = None"
    by (simp add: initialDetection_def)
  show ?thesis
    using b w i devMount_dev
      boarding_needs_speed_line_and_prior_fix[of devMount "1/2" jumpNorth 4000 walking]
      boarding_needs_speed_line_and_prior_fix[of devMount "1/2" jumpNorth 4000 "initialDetection 500"]
    by simp
qed


subsection \<open>One boarding per run\<close>


















subsection \<open>Repeated fix\<close>

lemma riding_reached:
  "map fst (observe devMount (initialDetection 500) (take 2 ride)) = [walking, riding]"
  unfolding ride_def
  by (simp add: Let_def initialDetection_def walking_def riding_def classify_idle
      classify_detected detected_tokyo[OF devMount_dev] tokyo_line yamanote_default)

lemma identical_fix_NaN:
  "previousLocationRef st = Some (newLocationOf position) \<Longrightarrow> lastUpdateRef st = t \<Longrightarrow>
   t \<noteq> 0 \<Longrightarrow> calculatedSpeedOf rnd st position t = NaN"
  by (simp add: calculatedSpeedOf_def speedFromDelta_def calculateDistance_same js_div_def)

text \<open>
  C5 (the code at the failing input). The rider is on the train (the state after the
  second fix of the ride) and the same position arrives again with the same
  \<open>Date.now()\<close>. The callback divides 0 m by 0 s: the speed it stores is \<open>NaN\<close>, not
  the previous 40 km/h, and the fix is recorded as not-train in
  \<open>previousTrainStatusRef\<close>, so the state is not carried forward.
\<close>

theorem identical_fix_stores_NaN:
  "speed (fst (successCallback devMount 0 tokyoPosition 4000 riding)) = NaN
   \<and> speed riding = Fin 40
   \<and> previousTrainStatusRef riding
   \<and> \<not> previousTrainStatusRef (fst (successCallback devMount 0 tokyoPosition 4000 riding))
   \<and> newLocationOf tokyoPosition = tokyo
   \<and> previousLocationRef riding = Some tokyo
   \<and> lastUpdateRef riding = 4000"
proof -
  have l: "newLocationOf tokyoPosition = tokyo"
    by (simp add: newLocationOf_def tokyoPosition_def tokyo_def)
  have v: "calculatedSpeedOf 0 riding tokyoPosition 4000 = NaN"
    by (rule identical_fix_NaN) (simp_all add: l riding_def)
  have n: "\<not> isTrainDetectedOf devMount riding NaN tokyo"
    by (simp add: isTrainDetectedOf_def)
  have "successCallback devMount 0 tokyoPosition 4000 riding =
      classify devMount NaN tokyo 4000 riding"
    by (simp add: successCallback_def v l)
  moreover have "previousTrainStatusRef riding" by (simp add: riding_def)
  ultimately show ?thesis
    using n by (simp add: classify_faster l) (simp add: riding_def)
qed


section \<open>Properties of the chat server\<close>

subsection \<open>Runs of the server\<close>

lemma onEvent_cases:
  "onEvent sid ev st = Inl TypeError \<and> ev = Ping OtherValue
   \<or> (\<exists>out. onEvent sid ev st = Inr (st, out) \<and> ev \<noteq> Ping OtherValue \<and>
        (out = [] \<or> out = [Emit sid ''connected'' ''Socket.IO connection successful''] \<or>
         out = [Ack sid ''pong'']))"
proof (cases ev)
  case (Ping arg)
  then show ?thesis by (cases arg) simp_all
qed simp_all


lemma serve_keeps_tables: "serve st evs = Inr (st', out) \<Longrightarrow> st' = st"
proof (induction evs arbitrary: st' out)
  case Nil
  then show ?case by simp
next
  case (Cons e evs)
  obtain sid ev where e: "e = (sid, ev)" by (cases e)
  from onEvent_cases[of sid ev st] Cons.prems e
  obtain out1 where o: "onEvent sid ev st = Inr (st, out1)"
    by (auto split: sum.splits)
  then obtain out2 where "serve st evs = Inr (st', out2)"
    using Cons.prems e by (auto split: sum.splits)
  then show ?case by (rule Cons.IH)
qed

lemma serve_outputs:
  "serve st evs = Inr (st', out) \<Longrightarrow>
   \<forall>x\<in>set out. \<exists>sid. x = Emit sid ''connected'' ''Socket.IO connection successful'' \<or>
                      x = Ack sid ''pong''"
proof (induction evs arbitrary: st' out)
  case Nil
  then show ?case by simp
next
  case (Cons e evs)
  obtain sid ev where e: "e = (sid, ev)" by (cases e)
  from onEvent_cases[of sid ev st] Cons.prems e
  obtain out1 where o: "onEvent sid ev st = Inr (st, out1)"
    and o1: "out1 = [] \<or> out1 = [Emit sid ''connected'' ''Socket.IO connection successful''] \<or>
         out1 = [Ack sid ''pong'']"
    by (auto split: sum.splits)
  then obtain out2 where s2: "serve st evs = Inr (st', out2)" and out: "out = out1 @ out2"
    using Cons.prems e by (auto split: sum.splits)
  from Cons.IH[OF s2] o1 out show ?case by auto
qed


subsection \<open>Broadcast and sendMessage\<close>

lemma count_emits_absent:
  fixes members :: "(string \<times> User) list"
  shows "s \<notin> set (map (\<lambda>m. socketId (snd m)) members) \<Longrightarrow>
   count_list
     (map (\<lambda>(k, user). Emit (socketId user) ev d)
        (filter (\<lambda>(k, user). Some (socketId user) \<noteq> Some sender) members))
     (Emit s ev d) = 0"
  by (induction members) auto

lemma count_emits:
  fixes members :: "(string \<times> User) list"
  shows "distinct (map (\<lambda>m. socketId (snd m)) members) \<Longrightarrow> (k, user) \<in> set members \<Longrightarrow>
   count_list
     (map (\<lambda>(k, user). Emit (socketId user) ev d)
        (filter (\<lambda>(k, user). Some (socketId user) \<noteq> Some sender) members))
     (Emit (socketId user) ev d) = (if socketId user = sender then 0 else 1)"
proof (induction members)
  case Nil
  then show ?case by simp
next
  case (Cons m members)
  obtain k' u' where m: "m = (k', u')" by (cases m)
  from Cons.prems(1) m
  have fresh: "socketId u' \<notin> set (map (\<lambda>m. socketId (snd m)) members)"
    and rest: "distinct (map (\<lambda>m. socketId (snd m)) members)"
    by simp_all
  show ?case
  proof (cases "(k, user) \<in> set members")
    case True
    then have "socketId user \<in> set (map (\<lambda>m. socketId (snd m)) members)" by force
    with fresh have "socketId u' \<noteq> socketId user" by metis
    then show ?thesis using Cons.IH[OF rest True] m by (auto split: if_splits)
  next
    case False
    then have "(k, user) = (k', u')" using Cons.prems(2) m by simp
    then have "user = u'" by simp
    then show ?thesis using m count_emits_absent[OF fresh, of ev d sender] by auto
  qed
qed

lemma no_emit_to_excluded:
  "Emit sender ev d \<notin> set (broadcastToRoom rs rid ev d (Some sender))"
  by (auto simp: broadcastToRoom_def split: option.splits)

text \<open>
  Two members in room R; the first sends a message. Nothing is emitted: the second
  member receives no \<open>receiveMessage\<close>. The same holds when the two sockets connect and
  emit \<open>joinRoom\<close> first: only the two \<open>connected\<close> greetings are emitted, and the
  tables stay empty.
\<close>

theorem sendMessage_delivers_nothing_counterexample:
  "rooms twoInRoom ''R'' = Some (roomOf [(''A'', alice), (''B'', bob)])
   \<and> socketId alice = ''sa'' \<and> socketId bob = ''sb''
   \<and> onEvent ''sa'' (SendMessage ''R'' ''hello'' ''alice'' 5) twoInRoom = Inr (twoInRoom, [])
   \<and> serve initialServer
        [(''sa'', Connection), (''sb'', Connection),
         (''sa'', JoinRoom ''R'' ''R'' yamanote ''alice''),
         (''sb'', JoinRoom ''R'' ''R'' yamanote ''bob''),
         (''sa'', SendMessage ''R'' ''hello'' ''alice'' 5)] =
       Inr (initialServer,
            [Emit ''sa'' ''connected'' ''Socket.IO connection successful'',
             Emit ''sb'' ''connected'' ''Socket.IO connection successful''])"
  by (simp add: twoInRoom_def alice_def bob_def)

text \<open>
  C7 (as amended). For every room, \<open>broadcastToRoom(roomId, event, data, sender)\<close>
  emits the event exactly once to every member of the room whose socket is not the
  sender's (the members having distinct sockets) and never to the sender's socket.
  The connection handler registers no \<open>sendMessage\<close> listener: a \<open>sendMessage\<close> leaves
  the tables as they are and delivers nothing, so no id or timestamp is assigned.
\<close>

theorem broadcast_reaches_all_but_sender:
  "(rs rid = Some room \<and> distinct (map (\<lambda>m. socketId (snd m)) (users room)) \<longrightarrow>
      (\<forall>(k, user)\<in>set (users room).
         count_list (broadcastToRoom rs rid ev d (Some sender)) (Emit (socketId user) ev d) =
           (if socketId user = sender then 0 else 1)))
   \<and> Emit sender ev d \<notin> set (broadcastToRoom rs rid ev d (Some sender))
   \<and> onEvent sid (SendMessage rid message nick ts) st = Inr (st, [])"
  using count_emits[of "users room" _ _ ev d sender]
  by (auto simp: no_emit_to_excluded broadcastToRoom_def)

theorem broadcast_reaches_all_but_sender_witness:
  "rooms twoInRoom ''R'' = Some (roomOf [(''A'', alice), (''B'', bob)])
   \<and> distinct (map (\<lambda>m. socketId (snd m)) (users (roomOf [(''A'', alice), (''B'', bob)])))
   \<and> count_list (broadcastToRoom (rooms twoInRoom) ''R'' ''receiveMessage'' ''hello'' (Some ''sa''))
        (Emit ''sb'' ''receiveMessage'' ''hello'') = 1
   \<and> count_list (broadcastToRoom (rooms twoInRoom) ''R'' ''receiveMessage'' ''hello'' (Some ''sa''))
        (Emit ''sa'' ''receiveMessage'' ''hello'') = 0
   \<and> broadcastToRoom (rooms twoInRoom) ''R'' ''receiveMessage'' ''hello'' (Some ''sa'') =
        [Emit ''sb'' ''receiveMessage'' ''hello'']"
proof -
  have h: "rooms twoInRoom ''R'' = Some (roomOf [(''A'', alice), (''B'', bob)])
      \<and> distinct (map (\<lambda>m. socketId (snd m)) (users (roomOf [(''A'', alice), (''B'', bob)])))"
    by (simp add: twoInRoom_def roomOf_def alice_def bob_def)
  have b: "broadcastToRoom (rooms twoInRoom) ''R'' ''receiveMessage'' ''hello'' (Some ''sa'') =
        [Emit ''sb'' ''receiveMessage'' ''hello'']"
    by (simp add: broadcastToRoom_def twoInRoom_def roomOf_def alice_def bob_def)
  show ?thesis
    using h b broadcast_reaches_all_but_sender[of "rooms twoInRoom" "''R''"
        "roomOf [(''A'', alice), (''B'', bob)]" "''receiveMessage''" "''hello''" "''sa''"]
    by (simp add: roomOf_def alice_def bob_def)
qed


subsection \<open>Rooms without members\<close>

lemma deleteRoom_cases:
  "deleteRoom rid rs =
     (case rs rid of
        None \<Rightarrow> rs
      | Some room \<Rightarrow> if users room = [] then rs(rid := None) else rs)"
  by (simp add: deleteRoom_def split: option.splits)



subsection \<open>Disconnect\<close>

lemma disconnect_for_leave:
  "serve st (evs @ (sid, Disconnect) # rest) = serve st (evs @ (sid, LeaveRoom rid) # rest)"
proof (induction evs arbitrary: st)
  case Nil
  then show ?case by simp
next
  case (Cons e evs)
  obtain s ev where e: "e = (s, ev)" by (cases e)
  show ?case using Cons.IH e by (simp split: sum.splits)
qed

text \<open>
  Two sockets connect and both emit \<open>joinRoom\<close> for room R; then the first disconnects.
  The run completes with the two \<open>connected\<close> greetings as its only output: the socket
  that stays receives no \<open>userLeft\<close>, and the tables are as at the start.
\<close>

theorem disconnect_notifies_nobody_counterexample:
  "serve initialServer
     [(''sa'', Connection), (''sb'', Connection),
      (''sa'', JoinRoom ''R'' ''R'' yamanote ''alice''),
      (''sb'', JoinRoom ''R'' ''R'' yamanote ''bob''),
      (''sa'', Disconnect)] =
     Inr (initialServer,
          [Emit ''sa'' ''connected'' ''Socket.IO connection successful'',
           Emit ''sb'' ''connected'' ''Socket.IO connection successful''])"
  by simp

text \<open>
  C9 (as amended). In every run of the server, a transport-level disconnect has the
  same effect as an explicit \<open>leaveRoom\<close> at the same point: the run with the one and
  the run with the other end in the same tables and emit the same. That effect is
  none: a run that completes leaves the tables as they were at the start, and all it
  emits is the \<open>connected\<close> greeting to a new socket and the reply to a ping. No member
  is removed, no \<open>userLeft\<close> reaches the remaining sockets, and no room is removed.
\<close>

theorem disconnect_same_as_leave:
  "serve st (evs @ (sid, Disconnect) # rest) = serve st (evs @ (sid, LeaveRoom rid) # rest)
   \<and> (serve st evs = Inr (st', out) \<longrightarrow>
        st' = st \<and>
        (\<forall>x\<in>set out. \<exists>s. x = Emit s ''connected'' ''Socket.IO connection successful'' \<or>
                          x = Ack s ''pong'') \<and>
        (\<forall>s d. Emit s ''userLeft'' d \<notin> set out))"
proof -
  have "\<forall>s d. Emit s ''userLeft'' d \<notin> set out" if "serve st evs = Inr (st', out)"
    using serve_outputs[OF that] by auto
  then show ?thesis
    using disconnect_for_leave[of st evs sid rest rid] serve_keeps_tables[of st evs st' out]
      serve_outputs[of st evs st' out]
    by blast
qed

theorem disconnect_same_as_leave_witness:
  "serve initialServer
     [(''sa'', Connection), (''sb'', Connection), (''sb'', Ping AckFunction),
      (''sa'', Disconnect)] =
     Inr (initialServer,
          [Emit ''sa'' ''connected'' ''Socket.IO connection successful'',
           Emit ''sb'' ''connected'' ''Socket.IO connection successful'',
           Ack ''sb'' ''pong''])
   \<and> serve initialServer
       ([(''sa'', Connection), (''sb'', Connection)] @ (''sa'', Disconnect) # [(''sb'', Ping AckFunction)]) =
     serve initialServer
       ([(''sa'', Connection), (''sb'', Connection)] @ (''sa'', LeaveRoom ''R'') # [(''sb'', Ping AckFunction)])
   \<and> Emit ''sb'' ''userLeft'' ''alice'' \<notin>
       set [Emit ''sa'' ''connected'' ''Socket.IO connection successful'',
            Emit ''sb'' ''connected'' ''Socket.IO connection successful'',
            Ack ''sb'' ''pong'']"
proof -
  have r: "serve initialServer
     [(''sa'', Connection), (''sb'', Connection), (''sb'', Ping AckFunction),
      (''sa'', Disconnect)] =
     Inr (initialServer,
          [Emit ''sa'' ''connected'' ''Socket.IO connection successful'',
           Emit ''sb'' ''connected'' ''Socket.IO connection successful'',
           Ack ''sb'' ''pong''])"
    by simp
  show ?thesis
    using r
      disconnect_same_as_leave[of initialServer
        "[(''sa'', Connection), (''sb'', Connection), (''sb'', Ping AckFunction),
          (''sa'', Disconnect)]"
        "''sa''" "[]" "''R''" initialServer
        "[Emit ''sa'' ''connected'' ''Socket.IO connection successful'',
          Emit ''sb'' ''connected'' ''Socket.IO connection successful'',
          Ack ''sb'' ''pong'']"]
    by simp
qed

subsection \<open>deleteRoom\<close>

text \<open>
  C10. \<open>deleteRoom\<close> removes the entry from the rooms map only when the room exists and
  its user set is empty; on a room that still has members and on an unknown id it
  returns the map unchanged. No other entry is ever touched, and there is no failing
  case.
\<close>

theorem deleteRoom_only_when_empty:
  "(rs rid = None \<longrightarrow> deleteRoom rid rs = rs)
   \<and> (rs rid = Some room \<and> users room \<noteq> [] \<longrightarrow> deleteRoom rid rs = rs)
   \<and> (rs rid = Some room \<and> users room = [] \<longrightarrow> deleteRoom rid rs = rs(rid := None))
   \<and> (other \<noteq> rid \<longrightarrow> deleteRoom rid rs other = rs other)"
  by (simp add: deleteRoom_cases split: option.splits)

theorem deleteRoom_only_when_empty_witness:
  "rooms twoInRoom ''X'' = None
   \<and> deleteRoom ''X'' (rooms twoInRoom) = rooms twoInRoom
   \<and> rooms twoInRoom ''R'' = Some (roomOf [(''A'', alice), (''B'', bob)])
   \<and> users (roomOf [(''A'', alice), (''B'', bob)]) \<noteq> []
   \<and> deleteRoom ''R'' (rooms twoInRoom) = rooms twoInRoom
   \<and> [''R'' \<mapsto> roomOf []] ''R'' = Some (roomOf [])
   \<and> users (roomOf []) = []
   \<and> deleteRoom ''R'' [''R'' \<mapsto> roomOf []] = Map.empty"
proof -
  have a: "rooms twoInRoom ''X'' = None"
    and b: "rooms twoInRoom ''R'' = Some (roomOf [(''A'', alice), (''B'', bob)])"
    and c: "users (roomOf [(''A'', alice), (''B'', bob)]) \<noteq> []"
    by (simp_all add: twoInRoom_def roomOf_def)
  have d: "[''R'' \<mapsto> roomOf []] ''R'' = Some (roomOf [])" and e: "users (roomOf []) = []"
    by (simp_all add: roomOf_def)
  show ?thesis
    using a b c d e
      deleteRoom_only_when_empty[of "rooms twoInRoom" "''X''"]
      deleteRoom_only_when_empty[of "rooms twoInRoom" "''R''" "roomOf [(''A'', alice), (''B'', bob)]"]
      deleteRoom_only_when_empty[of "[''R'' \<mapsto> roomOf []]" "''R''" "roomOf []"]
    by simp
qed

end
